theory Spec2Isabelle
  imports Main
begin

section \<open>The chat hook of \<open>src/hooks/use-chat.ts\<close>\<close>

text \<open>
  The hook keeps four pieces of React state (\<open>messages\<close>, \<open>input\<close>, \<open>isLoading\<close>,
  \<open>error\<close>) and one mutable reference (\<open>abortControllerRef\<close>). Its functions are
  embedded as state transformers on a record of these. Queued state updates are applied
  in the order the code issues them, which is what React does with them.

  JavaScript strings are modelled as HOL strings, one \<open>char\<close> per code unit, so the model
  covers the code units \<open>U+0000\<close> to \<open>U+00FF\<close>.
\<close>

subsection \<open>Data\<close>

datatype part_type = Text | Image | File

record ChatMessagePart =
  part_type :: part_type
  part_text :: "string option"
  image_url :: "string option"
  file_url :: "string option"

datatype role = User | Assistant | System

record ChatMessage =
  msg_id :: string
  role :: role
  parts :: "ChatMessagePart list"
  createdAt :: "nat option"

text \<open>What a \<open>catch\<close> can receive. \<open>axios.isCancel\<close> recognises the cancellation error.\<close>

datatype js_error = CanceledError | TypeError string | SyntaxError string | Error string

definition axios_isCancel :: "js_error \<Rightarrow> bool" where
  "axios_isCancel err = (case err of CanceledError \<Rightarrow> True | _ \<Rightarrow> False)"

text \<open>
  The request body: \<open>body\<close> of the options is absent, a static object or a function of the
  user message (which may throw). Objects of extra fields are association lists.
\<close>

datatype body_option =
  NoBody
  | StaticBody "(string \<times> string) list"
  | BodyFn "ChatMessage \<Rightarrow> js_error + (string \<times> string) list"

datatype payload =
  DefaultPayload "ChatMessage list" "string option" "(string \<times> string) list"
  | CustomPayload "(string \<times> string) list"

text \<open>
  The options of the hook. A callback is optional in the source (\<open>onFinish?.(...)\<close>); the
  model records whether it was supplied, and a call of a supplied callback is an entry of
  the trace of effects.
\<close>

record UseChatOptions =
  api :: string
  onResponse :: bool
  onFinish :: bool
  onError :: bool
  headers :: "(string \<times> string) list"
  body :: body_option

datatype effect =
  OnResponse string
  | OnFinish ChatMessage
  | OnError js_error
  | ConsoleLog string
  | ConsoleError js_error
  | AxiosPost string payload
  | PreventDefault

text \<open>
  The state. \<open>controllers\<close> is the store of the \<open>AbortController\<close> objects created so far
  (the value is the \<open>aborted\<close> flag of the signal); \<open>abortControllerRef\<close> is \<open>null\<close> or the
  address of one of them. \<open>effects\<close> is the trace of callback and console calls.
\<close>

record hook =
  messages :: "ChatMessage list"
  input :: string
  isLoading :: bool
  error :: "js_error option"
  abortControllerRef :: "nat option"
  controllers :: "bool list"
  effects :: "effect list"

text \<open>
  The target of a progress event, \<open>progressEvent.event?.target\<close>: absent, or a request
  object whose \<open>responseText\<close> and \<open>response\<close> are read.
\<close>

record XMLHttpRequest =
  responseText :: string
  response :: string

text \<open>The argument of \<open>append\<close>: a raw string or a message.\<close>

datatype append_arg = Str string | Msg ChatMessage

text \<open>The argument of \<open>handleSubmit\<close>: a form event, a string, or nothing.\<close>

datatype submit_arg = FormEvent | Content string | NoArg

text \<open>
  What happens while a request is in flight: the transport delivers a progress event, or
  the user calls \<open>stop\<close>. The request then resolves or rejects.
\<close>

datatype flight_event = Progress "XMLHttpRequest option" | Stop

datatype outcome = Resolved | Rejected js_error

subsection \<open>Operations\<close>

definition text_part :: "string \<Rightarrow> ChatMessagePart" where
  "text_part s = \<lparr>part_type = Text, part_text = Some s, image_url = None, file_url = None\<rparr>"

text \<open>\<open>xhr.responseText || xhr.response\<close>: the empty string is falsy.\<close>

definition raw_response :: "XMLHttpRequest \<Rightarrow> string" where
  "raw_response xhr = (if responseText xhr \<noteq> [] then responseText xhr else response xhr)"

text \<open>
  \<open>handleInputChange\<close>: the argument is a string, or a change event with the value of its
  target when it has one.
\<close>

datatype change_arg = ChangeText string | ChangeEvent "string option"

definition handleInputChange :: "change_arg \<Rightarrow> hook \<Rightarrow> hook" where
  "handleInputChange e st =
     (case e of
        ChangeText s \<Rightarrow> st\<lparr>input := s\<rparr>
      | ChangeEvent (Some v) \<Rightarrow> st\<lparr>input := v\<rparr>
      | ChangeEvent None \<Rightarrow> st)"

definition stop :: "hook \<Rightarrow> hook" where
  "stop st =
     (case abortControllerRef st of
        None \<Rightarrow> st
      | Some c \<Rightarrow>
          st\<lparr>controllers := (controllers st)[c := True],
             abortControllerRef := None,
             isLoading := False\<rparr>)"

text \<open>
  \<open>nanoid k\<close> is the result of the \<open>k\<close>-th call of \<open>nanoid()\<close> within one call of \<open>append\<close>,
  and \<open>now k\<close> the value of the \<open>k\<close>-th \<open>new Date()\<close>, both counted from 0. For a string
  the user message takes the first id and the first date and the placeholder the second
  ones; for a message the placeholder takes the first ones.
\<close>

definition userMessage_of :: "(nat \<Rightarrow> string) \<Rightarrow> (nat \<Rightarrow> nat) \<Rightarrow> append_arg \<Rightarrow> ChatMessage" where
  "userMessage_of nanoid now message =
     (case message of
        Str s \<Rightarrow> \<lparr>msg_id = nanoid 0, role = User, parts = [text_part s], createdAt = Some (now 0)\<rparr>
      | Msg m \<Rightarrow> m)"

definition assistantMessageId_of :: "(nat \<Rightarrow> string) \<Rightarrow> append_arg \<Rightarrow> string" where
  "assistantMessageId_of nanoid message =
     (case message of Str s \<Rightarrow> nanoid 1 | Msg m \<Rightarrow> nanoid 0)"

definition assistantMessage_of :: "(nat \<Rightarrow> string) \<Rightarrow> (nat \<Rightarrow> nat) \<Rightarrow> append_arg \<Rightarrow> ChatMessage" where
  "assistantMessage_of nanoid now message =
     \<lparr>msg_id = assistantMessageId_of nanoid message, role = Assistant,
      parts = [text_part []],
      createdAt = Some (case message of Str s \<Rightarrow> now 1 | Msg m \<Rightarrow> now 0)\<rparr>"

text \<open>
  The synchronous part of \<open>append\<close>, up to the \<open>try\<close>: loading on, error cleared, the two
  messages appended, the input cleared for a string, a new controller stored in the
  reference.
\<close>

definition append_start :: "(nat \<Rightarrow> string) \<Rightarrow> (nat \<Rightarrow> nat) \<Rightarrow> append_arg \<Rightarrow> hook \<Rightarrow> hook" where
  "append_start nanoid now message st =
     st\<lparr>isLoading := True,
        error := None,
        messages := messages st @
          [userMessage_of nanoid now message, assistantMessage_of nanoid now message],
        input := (case message of Str s \<Rightarrow> [] | Msg m \<Rightarrow> input st),
        controllers := controllers st @ [False],
        abortControllerRef := Some (length (controllers st))\<rparr>"

text \<open>The callback \<open>onDownloadProgress\<close> of the request's configuration.\<close>

definition onDownloadProgress ::
  "UseChatOptions \<Rightarrow> string \<Rightarrow> XMLHttpRequest option \<Rightarrow> hook \<Rightarrow> hook" where
  "onDownloadProgress opts assistantMessageId progressEvent st =
     (case progressEvent of
        None \<Rightarrow> st
      | Some xhr \<Rightarrow>
          st\<lparr>effects := effects st @
               (if onResponse opts then [OnResponse (raw_response xhr)] else []),
             messages :=
               map (\<lambda>msg. if msg_id msg = assistantMessageId
                           then msg\<lparr>parts := [text_part (raw_response xhr)]\<rparr>
                           else msg)
                 (messages st)\<rparr>)"

text \<open>
  The payload. The default payload reads \<open>userMessage.parts[0].text\<close>, which throws a
  \<open>TypeError\<close> when the message has no part.
\<close>

definition requestBody ::
  "UseChatOptions \<Rightarrow> ChatMessage list \<Rightarrow> ChatMessage \<Rightarrow> js_error + payload" where
  "requestBody opts msgs userMessage =
     (case body opts of
        BodyFn f \<Rightarrow>
          (case f userMessage of Inl err \<Rightarrow> Inl err | Inr b \<Rightarrow> Inr (CustomPayload b))
      | StaticBody b \<Rightarrow>
          (case parts userMessage of
             [] \<Rightarrow> Inl (TypeError ''Cannot read properties of undefined'')
           | p # ps \<Rightarrow> Inr (DefaultPayload (msgs @ [userMessage]) (part_text p) b))
      | NoBody \<Rightarrow>
          (case parts userMessage of
             [] \<Rightarrow> Inl (TypeError ''Cannot read properties of undefined'')
           | p # ps \<Rightarrow> Inr (DefaultPayload (msgs @ [userMessage]) (part_text p) [])))"

text \<open>The events of a request in flight, in the order they happen.\<close>

fun deliver :: "UseChatOptions \<Rightarrow> string \<Rightarrow> flight_event list \<Rightarrow> hook \<Rightarrow> hook" where
  "deliver opts aid [] st = st"
| "deliver opts aid (Progress ev # evs) st =
     deliver opts aid evs (onDownloadProgress opts aid ev st)"
| "deliver opts aid (Stop # evs) st = deliver opts aid evs (stop st)"

text \<open>The line after the \<open>await\<close>, the \<open>catch\<close> block and the \<open>finally\<close> block.\<close>

definition append_success :: "UseChatOptions \<Rightarrow> ChatMessage \<Rightarrow> hook \<Rightarrow> hook" where
  "append_success opts assistantMessage st =
     st\<lparr>effects := effects st @ (if onFinish opts then [OnFinish assistantMessage] else [])\<rparr>"

definition append_catch :: "UseChatOptions \<Rightarrow> js_error \<Rightarrow> hook \<Rightarrow> hook" where
  "append_catch opts err st =
     (if axios_isCancel err
      then st\<lparr>effects := effects st @ [ConsoleLog ''Request canceled'']\<rparr>
      else st\<lparr>effects := effects st @ [ConsoleError err] @
                  (if onError opts then [OnError err] else []),
              error := Some err\<rparr>)"

definition append_finally :: "hook \<Rightarrow> hook" where
  "append_finally st = st\<lparr>isLoading := False, abortControllerRef := None\<rparr>"

text \<open>
  \<open>append\<close>, from the call to the end of its \<open>finally\<close> block. \<open>flight\<close> and \<open>result\<close> are
  what the transport does with the request; they are not read when building the payload
  throws, since no request is made then.
\<close>

definition append_msg ::
  "UseChatOptions \<Rightarrow> (nat \<Rightarrow> string) \<Rightarrow> (nat \<Rightarrow> nat) \<Rightarrow> append_arg \<Rightarrow>
   flight_event list \<Rightarrow> outcome \<Rightarrow> hook \<Rightarrow> hook" where
  "append_msg opts nanoid now message flight result st =
     (let userMessage = userMessage_of nanoid now message;
          assistantMessage = assistantMessage_of nanoid now message;
          st1 = append_start nanoid now message st
      in case requestBody opts (messages st) userMessage of
           Inl err \<Rightarrow> append_finally (append_catch opts err st1)
         | Inr p \<Rightarrow>
             (let st2 = deliver opts (msg_id assistantMessage) flight
                          (st1\<lparr>effects := effects st1 @ [AxiosPost (api opts) p]\<rparr>)
              in case result of
                   Resolved \<Rightarrow> append_finally (append_success opts assistantMessage st2)
                 | Rejected err \<Rightarrow> append_finally (append_catch opts err st2)))"

text \<open>
  \<open>String.prototype.trim\<close> on the code units of the model: the white space and line
  terminators below \<open>U+0100\<close> are tab, line feed, vertical tab, form feed, carriage
  return, space and no-break space.
\<close>

definition isWhiteSpace :: "char \<Rightarrow> bool" where
  "isWhiteSpace c =
     (c = CHR 0x09 \<or> c = CHR 0x0A \<or> c = CHR 0x0B \<or> c = CHR 0x0C \<or> c = CHR 0x0D \<or>
      c = CHR 0x20 \<or> c = CHR 0xA0)"

definition trim :: "string \<Rightarrow> string" where
  "trim s = rev (dropWhile isWhiteSpace (rev (dropWhile isWhiteSpace s)))"

text \<open>
  \<open>handleSubmit\<close>: \<open>preventDefault\<close> on an event, the content from the argument or the
  input, nothing more when the trimmed content is empty, else \<open>append\<close> and the input
  cleared.
\<close>

definition content_of :: "submit_arg \<Rightarrow> hook \<Rightarrow> string" where
  "content_of e st = (case e of Content s \<Rightarrow> s | FormEvent \<Rightarrow> input st | NoArg \<Rightarrow> input st)"

definition handleSubmit ::
  "UseChatOptions \<Rightarrow> (nat \<Rightarrow> string) \<Rightarrow> (nat \<Rightarrow> nat) \<Rightarrow> submit_arg \<Rightarrow>
   flight_event list \<Rightarrow> outcome \<Rightarrow> hook \<Rightarrow> hook" where
  "handleSubmit opts nanoid now e flight result st =
     (let st0 = (case e of
                   FormEvent \<Rightarrow> st\<lparr>effects := effects st @ [PreventDefault]\<rparr>
                 | Content s \<Rightarrow> st
                 | NoArg \<Rightarrow> st);
          content = content_of e st
      in if trim content = [] then st0
         else (append_msg opts nanoid now (Str content) flight result st0)\<lparr>input := []\<rparr>)"

definition clearMessages :: "hook \<Rightarrow> hook" where
  "clearMessages st = stop (st\<lparr>messages := [], input := [], error := None\<rparr>)"

section \<open>The component of \<open>src/components/chat.tsx\<close>\<close>

text \<open>
  The component keeps one piece of state, its own list of messages, and no loading flag,
  error or cancellation handle. Its messages have the roles \<open>user\<close> and \<open>assistant\<close>
  and parts of the one type \<open>text\<close>.
\<close>

subsection \<open>Data\<close>

datatype Chat_role = Chat_User | Chat_Assistant

record Chat_Part =
  chat_text :: string

record Chat_Message =
  chat_id :: string
  chat_role :: Chat_role
  chat_parts :: "Chat_Part list"

datatype response_type = T_item | T_begin | T_end | T_error

record MetadataChatResponseN8N =
  nodeId :: string
  nodeName :: string
  itemIndex :: int
  runIndex :: int
  timestamp :: int

record ChatResponseN8N =
  rtype :: response_type
  content :: string
  metadata :: MetadataChatResponseN8N

text \<open>What one call of the component's \<open>handleSubmit\<close> leaves behind.\<close>

record Chat_run =
  final_messages :: "Chat_Message list"
  raised :: "js_error list"
  console :: "effect list"

subsection \<open>Operations\<close>

text \<open>\<open>s.split(c)\<close> for a separator of one code unit: the empty string gives one empty piece.\<close>

fun split_on :: "char \<Rightarrow> string \<Rightarrow> string list" where
  "split_on c [] = [[]]"
| "split_on c (x # xs) =
     (if x = c then [] # split_on c xs
      else (case split_on c xs of [] \<Rightarrow> [[x]] | l # ls \<Rightarrow> (x # l) # ls))"

text \<open>\<open>response.split("\\n").filter(Boolean)\<close>: the empty string is the only falsy string.\<close>

definition lines_of :: "string \<Rightarrow> string list" where
  "lines_of resp = filter (\<lambda>l. l \<noteq> []) (split_on (CHR 0x0A) resp)"

text \<open>
  \<open>lines.map((line) => JSON.parse(line))\<close>. \<open>JSON.parse\<close> belongs to the runtime and is a
  parameter: \<open>None\<close> where it throws its \<open>SyntaxError\<close>, else the record the line denotes,
  of the type the source declares for it. The first line that fails ends the map.
\<close>

fun parse_lines ::
  "(string \<Rightarrow> ChatResponseN8N option) \<Rightarrow> string list \<Rightarrow> js_error + ChatResponseN8N list" where
  "parse_lines JSON_parse [] = Inr []"
| "parse_lines JSON_parse (line # ls) =
     (case JSON_parse line of
        None \<Rightarrow> Inl (SyntaxError line)
      | Some r \<Rightarrow>
          (case parse_lines JSON_parse ls of Inl err \<Rightarrow> Inl err | Inr rs \<Rightarrow> Inr (r # rs)))"

text \<open>\<open>parsed.at(-1)\<close>: \<open>undefined\<close> on the empty array.\<close>

definition at_last :: "'a list \<Rightarrow> 'a option" where
  "at_last xs = (if xs = [] then None else Some (last xs))"

text \<open>
  The state update of the \<open>item\<close> branch, \<open>prev.map(...)\<close>. For a message with the
  placeholder's id it reads \<open>msg.parts[0].text\<close>, a \<open>TypeError\<close> when the message has no
  part, and sets the parts to one part of text \<open>msg.parts[0].text + content || ""\<close>.
\<close>

fun Chat_setText :: "string \<Rightarrow> string \<Rightarrow> Chat_Message list \<Rightarrow> js_error + Chat_Message list" where
  "Chat_setText aid c [] = Inr []"
| "Chat_setText aid c (msg # msgs) =
     (if chat_id msg = aid
      then (case chat_parts msg of
              [] \<Rightarrow> Inl (TypeError ''Cannot read properties of undefined'')
            | p # ps \<Rightarrow>
                (case Chat_setText aid c msgs of
                   Inl err \<Rightarrow> Inl err
                 | Inr r \<Rightarrow>
                     Inr (msg\<lparr>chat_parts :=
                            [\<lparr>chat_text = (if chat_text p @ c \<noteq> [] then chat_text p @ c else [])\<rparr>]\<rparr>
                          # r)))
      else (case Chat_setText aid c msgs of Inl err \<Rightarrow> Inl err | Inr r \<Rightarrow> Inr (msg # r)))"

text \<open>
  The callback \<open>onDownloadProgress\<close> of the component. The result is the error that
  handling the notification raises, or the messages after it. \<open>JSON.stringify\<close> is a
  parameter as well.
\<close>

definition Chat_onDownloadProgress ::
  "(string \<Rightarrow> ChatResponseN8N option) \<Rightarrow> (ChatResponseN8N \<Rightarrow> string) \<Rightarrow> string \<Rightarrow>
   XMLHttpRequest option \<Rightarrow> Chat_Message list \<Rightarrow> js_error + Chat_Message list" where
  "Chat_onDownloadProgress JSON_parse JSON_stringify assistantMessageId progressEvent msgs =
     (case progressEvent of
        None \<Rightarrow> Inr msgs
      | Some xhr \<Rightarrow>
          (case parse_lines JSON_parse (lines_of (response xhr)) of
             Inl err \<Rightarrow> Inl err
           | Inr parsed \<Rightarrow>
               (case at_last parsed of
                  None \<Rightarrow> Inr msgs
                | Some lastResponse \<Rightarrow>
                    (let updated =
                       (if rtype lastResponse = T_item
                        then Chat_setText assistantMessageId (content lastResponse) msgs
                        else Inr msgs)
                     in if rtype lastResponse = T_error
                        then Inl (Error (JSON_stringify lastResponse))
                        else updated))))"

text \<open>
  The notifications of one request, in order. A notification that raises leaves the
  messages as they were; the error goes to the transport that called the callback.
\<close>

fun Chat_deliver ::
  "(string \<Rightarrow> ChatResponseN8N option) \<Rightarrow> (ChatResponseN8N \<Rightarrow> string) \<Rightarrow> string \<Rightarrow>
   XMLHttpRequest option list \<Rightarrow> Chat_Message list \<Rightarrow> js_error list \<times> Chat_Message list" where
  "Chat_deliver JSON_parse JSON_stringify aid [] msgs = ([], msgs)"
| "Chat_deliver JSON_parse JSON_stringify aid (ev # evs) msgs =
     (case Chat_onDownloadProgress JSON_parse JSON_stringify aid ev msgs of
        Inl err \<Rightarrow>
          (case Chat_deliver JSON_parse JSON_stringify aid evs msgs of
             (errs, msgs') \<Rightarrow> (err # errs, msgs'))
      | Inr msgs1 \<Rightarrow> Chat_deliver JSON_parse JSON_stringify aid evs msgs1)"

text \<open>
  The synchronous part of the component's \<open>handleSubmit\<close>: \<open>nanoid 0\<close> is the id of the
  user message, \<open>nanoid 1\<close> the id of the placeholder (\<open>nanoid 2\<close> is the session id).
\<close>

definition Chat_start :: "(nat \<Rightarrow> string) \<Rightarrow> string \<Rightarrow> Chat_Message list \<Rightarrow> Chat_Message list" where
  "Chat_start nanoid txt msgs =
     msgs @
     [\<lparr>chat_id = nanoid 0, chat_role = Chat_User, chat_parts = [\<lparr>chat_text = txt\<rparr>]\<rparr>,
      \<lparr>chat_id = nanoid 1, chat_role = Chat_Assistant, chat_parts = [\<lparr>chat_text = []\<rparr>]\<rparr>]"

text \<open>
  The component's \<open>handleSubmit\<close>: the two messages, the request with its notifications,
  and the \<open>catch\<close> block, which writes a rejection to the console and nothing else.
\<close>

definition Chat_handleSubmit ::
  "(string \<Rightarrow> ChatResponseN8N option) \<Rightarrow> (ChatResponseN8N \<Rightarrow> string) \<Rightarrow> (nat \<Rightarrow> string) \<Rightarrow>
   string \<Rightarrow> XMLHttpRequest option list \<Rightarrow> outcome \<Rightarrow> Chat_Message list \<Rightarrow> Chat_run" where
  "Chat_handleSubmit JSON_parse JSON_stringify nanoid txt ticks result msgs =
     (case Chat_deliver JSON_parse JSON_stringify (nanoid 1) ticks (Chat_start nanoid txt msgs) of
        (errs, msgs') \<Rightarrow>
          \<lparr>final_messages = msgs',
           raised = errs,
           console = (case result of Resolved \<Rightarrow> [] | Rejected err \<Rightarrow> [ConsoleError err])\<rparr>)"

section \<open>Notions used in the statements\<close>

text \<open>The state of the hook at its first render, from the initial values of \<open>useState\<close>.\<close>

definition useChat_init :: "ChatMessage list \<Rightarrow> hook" where
  "useChat_init initialMessages =
     \<lparr>messages = initialMessages, input = [], isLoading = False, error = None,
      abortControllerRef = None, controllers = [], effects = []\<rparr>"

text \<open>
  The raw payloads that reach the updater of the hook: those of the progress events that
  carry a target. \<open>last_payload\<close> is the last of them, the empty string when there is none.
\<close>

definition notified :: "flight_event list \<Rightarrow> string list" where
  "notified flight =
     concat (map (\<lambda>ev. case ev of Progress (Some xhr) \<Rightarrow> [raw_response xhr] | _ \<Rightarrow> []) flight)"

definition last_payload :: "flight_event list \<Rightarrow> string" where
  "last_payload flight = (if notified flight = [] then [] else last (notified flight))"

text \<open>The calls of \<open>onResponse\<close> that the events of a request make.\<close>

definition responses :: "UseChatOptions \<Rightarrow> flight_event list \<Rightarrow> effect list" where
  "responses opts flight = (if onResponse opts then map OnResponse (notified flight) else [])"

text \<open>The reference to the cancellation handle is empty or refers to a stored controller.\<close>

definition handle_in_range :: "hook \<Rightarrow> bool" where
  "handle_in_range st =
     (case abortControllerRef st of None \<Rightarrow> True | Some c \<Rightarrow> c < length (controllers st))"

text \<open>One message under the update of the hook's progress callback.\<close>

definition overwrite :: "string \<Rightarrow> string \<Rightarrow> ChatMessage \<Rightarrow> ChatMessage" where
  "overwrite aid s msg = (if msg_id msg = aid then msg\<lparr>parts := [text_part s]\<rparr> else msg)"

text \<open>The state of the hook when the request of \<open>append\<close> with payload \<open>p\<close> settles.\<close>

definition in_flight ::
  "UseChatOptions \<Rightarrow> (nat \<Rightarrow> string) \<Rightarrow> (nat \<Rightarrow> nat) \<Rightarrow> append_arg \<Rightarrow> payload \<Rightarrow>
   flight_event list \<Rightarrow> hook \<Rightarrow> hook" where
  "in_flight opts nanoid now message p flight st =
     deliver opts (assistantMessageId_of nanoid message) flight
       ((append_start nanoid now message st)
          \<lparr>effects := effects (append_start nanoid now message st) @ [AxiosPost (api opts) p]\<rparr>)"

text \<open>
  For the component: the last record of a notification, defined when every non-empty line
  of its buffer parses; and the contents of the last records of a list of notifications,
  one after the other.
\<close>

definition last_record ::
  "(string \<Rightarrow> ChatResponseN8N option) \<Rightarrow> XMLHttpRequest \<Rightarrow> ChatResponseN8N option" where
  "last_record JSON_parse xhr =
     (case parse_lines JSON_parse (lines_of (response xhr)) of
        Inl err \<Rightarrow> None
      | Inr parsed \<Rightarrow> at_last parsed)"

definition last_contents ::
  "(string \<Rightarrow> ChatResponseN8N option) \<Rightarrow> XMLHttpRequest list \<Rightarrow> string" where
  "last_contents JSON_parse ticks =
     concat (map (\<lambda>xhr. case last_record JSON_parse xhr of None \<Rightarrow> [] | Some r \<Rightarrow> content r) ticks)"


text \<open>One message of the component under the update of the \<open>item\<close> branch.\<close>

definition Chat_appended :: "string \<Rightarrow> string \<Rightarrow> Chat_Message \<Rightarrow> Chat_Message" where
  "Chat_appended aid c msg =
     (if chat_id msg = aid
      then msg\<lparr>chat_parts := [\<lparr>chat_text = chat_text (hd (chat_parts msg)) @ c\<rparr>]\<rparr>
      else msg)"


subsection \<open>Concrete inputs\<close>

text \<open>
  Options with every callback supplied and no \<open>body\<close>; an id generator that gives the user
  message and the placeholder different ids; a clock; a request object of the response type
  \<open>text\<close>, whose \<open>responseText\<close> and \<open>response\<close> are the same string.
\<close>

definition opts_demo :: UseChatOptions where
  "opts_demo =
     \<lparr>api = ''/api/chat'', onResponse = True, onFinish = True, onError = True,
      headers = [], body = NoBody\<rparr>"

definition nanoid_demo :: "nat \<Rightarrow> string" where
  "nanoid_demo k = (if k = 0 then ''id-user'' else ''id-assistant'')"

definition now_demo :: "nat \<Rightarrow> nat" where
  "now_demo k = 1000 + k"




definition xhr_text :: "string \<Rightarrow> XMLHttpRequest" where
  "xhr_text s = \<lparr>responseText = s, response = s\<rparr>"

text \<open>
  Three lines of the stream of the webhook with the records they denote, and stand-ins for
  \<open>JSON.parse\<close> and \<open>JSON.stringify\<close> that are right on these lines and records.
\<close>

definition meta_demo :: MetadataChatResponseN8N where
  "meta_demo = \<lparr>nodeId = ''n1'', nodeName = ''AI Agent'', itemIndex = 0, runIndex = 0, timestamp = 1\<rparr>"

definition line_hi :: string where
  \<open>line_hi = ''{"type":"item","content":"Hi","metadata":{"nodeId":"n1","nodeName":"AI Agent","itemIndex":0,"runIndex":0,"timestamp":1}}''\<close>

definition line_there :: string where
  \<open>line_there = ''{"type":"item","content":" there","metadata":{"nodeId":"n1","nodeName":"AI Agent","itemIndex":0,"runIndex":0,"timestamp":1}}''\<close>

definition line_boom :: string where
  \<open>line_boom = ''{"type":"error","content":"boom","metadata":{"nodeId":"n1","nodeName":"AI Agent","itemIndex":0,"runIndex":0,"timestamp":1}}''\<close>

definition JSON_parse_demo :: "string \<Rightarrow> ChatResponseN8N option" where
  "JSON_parse_demo line =
     (if line = line_hi then Some \<lparr>rtype = T_item, content = ''Hi'', metadata = meta_demo\<rparr>
      else if line = line_there
      then Some \<lparr>rtype = T_item, content = '' there'', metadata = meta_demo\<rparr>
      else if line = line_boom
      then Some \<lparr>rtype = T_error, content = ''boom'', metadata = meta_demo\<rparr>
      else None)"

definition JSON_stringify_demo :: "ChatResponseN8N \<Rightarrow> string" where
  "JSON_stringify_demo r =
     (if r = \<lparr>rtype = T_item, content = ''Hi'', metadata = meta_demo\<rparr> then line_hi
      else if r = \<lparr>rtype = T_item, content = '' there'', metadata = meta_demo\<rparr> then line_there
      else if r = \<lparr>rtype = T_error, content = ''boom'', metadata = meta_demo\<rparr> then line_boom
      else [])"

text \<open>A request object of the component's request, which reads \<open>response\<close> alone.\<close>

definition xhr_buffer :: "string list \<Rightarrow> XMLHttpRequest" where
  "xhr_buffer ls = xhr_text (concat (map (\<lambda>l. l @ [CHR 0x0A]) ls))"


section \<open>Properties of the hook\<close>

subsection \<open>Trimming\<close>

lemma dropWhile_all_in: "(\<forall>x \<in> set (dropWhile P xs). P x) \<longleftrightarrow> (\<forall>x \<in> set xs. P x)"
proof
  assume a: "\<forall>x \<in> set (dropWhile P xs). P x"
  have "dropWhile P xs = []"
  proof (rule ccontr)
    assume ne: "dropWhile P xs \<noteq> []"
    then have "\<not> P (hd (dropWhile P xs))" by (rule hd_dropWhile)
    moreover have "hd (dropWhile P xs) \<in> set (dropWhile P xs)" using ne by simp
    ultimately show False using a by blast
  qed
  then show "\<forall>x \<in> set xs. P x" by simp
next
  assume "\<forall>x \<in> set xs. P x"
  then show "\<forall>x \<in> set (dropWhile P xs). P x" by (meson set_dropWhileD)
qed

lemma trim_empty_iff: "trim s = [] \<longleftrightarrow> (\<forall>c \<in> set s. isWhiteSpace c)"
  by (simp add: trim_def dropWhile_all_in)

subsection \<open>The events of a request\<close>

lemma stop_messages [simp]: "messages (stop st) = messages st"
  by (simp add: stop_def split: option.split)

lemma stop_error [simp]: "error (stop st) = error st"
  by (simp add: stop_def split: option.split)

lemma stop_input [simp]: "input (stop st) = input st"
  by (simp add: stop_def split: option.split)

lemma stop_effects [simp]: "effects (stop st) = effects st"
  by (simp add: stop_def split: option.split)

lemma progress_error [simp]: "error (onDownloadProgress opts aid ev st) = error st"
  by (simp add: onDownloadProgress_def split: option.split)

lemma progress_input [simp]: "input (onDownloadProgress opts aid ev st) = input st"
  by (simp add: onDownloadProgress_def split: option.split)

lemma progress_length [simp]:
  "length (messages (onDownloadProgress opts aid ev st)) = length (messages st)"
  by (simp add: onDownloadProgress_def split: option.split)

lemma progress_ids [simp]:
  "map msg_id (messages (onDownloadProgress opts aid ev st)) = map msg_id (messages st)"
  by (simp add: onDownloadProgress_def split: option.split)

lemma deliver_error: "error (deliver opts aid flight st) = error st"
  by (induction opts aid flight st rule: deliver.induct) simp_all

lemma deliver_input: "input (deliver opts aid flight st) = input st"
  by (induction opts aid flight st rule: deliver.induct) simp_all

lemma deliver_ids: "map msg_id (messages (deliver opts aid flight st)) = map msg_id (messages st)"
  by (induction opts aid flight st rule: deliver.induct) simp_all

lemma notified_Cons:
  "notified (ev # evs) = notified [ev] @ notified evs"
  by (simp add: notified_def)

lemma responses_Cons:
  "responses opts (ev # evs) = responses opts [ev] @ responses opts evs"
  using notified_Cons [of ev evs] by (simp add: responses_def)

lemma responses_Nil [simp]: "responses opts [] = []"
  by (simp add: responses_def notified_def)

lemma responses_Stop [simp]: "responses opts [Stop] = []"
  by (simp add: responses_def notified_def)

lemma progress_effects:
  "effects (onDownloadProgress opts aid ev st) = effects st @ responses opts [Progress ev]"
  by (simp add: onDownloadProgress_def responses_def notified_def split: option.split)

lemma deliver_effects:
  "effects (deliver opts aid flight st) = effects st @ responses opts flight"
proof (induction opts aid flight st rule: deliver.induct)
  case (1 opts aid st)
  show ?case by simp
next
  case (2 opts aid ev evs st)
  show ?case
    using 2 responses_Cons [of opts "Progress ev" evs] by (simp add: progress_effects)
next
  case (3 opts aid evs st)
  show ?case
    using 3 responses_Cons [of opts Stop evs] by simp
qed

lemma overwrite_overwrite [simp]: "overwrite aid s (overwrite aid t msg) = overwrite aid s msg"
  by (simp add: overwrite_def)

lemma progress_messages:
  "messages (onDownloadProgress opts aid (Some xhr) st) =
     map (overwrite aid (raw_response xhr)) (messages st)"
  by (simp add: onDownloadProgress_def overwrite_def)

lemma deliver_messages:
  "messages (deliver opts aid flight st) =
     (if notified flight = [] then messages st
      else map (overwrite aid (last (notified flight))) (messages st))"
proof (induction opts aid flight st rule: deliver.induct)
  case (1 opts aid st)
  show ?case by (simp add: notified_def)
next
  case (2 opts aid ev evs st)
  show ?case
  proof (cases ev)
    case None
    then show ?thesis using 2 by (simp add: notified_def onDownloadProgress_def)
  next
    case (Some xhr)
    have n: "notified (Progress (Some xhr) # evs) = raw_response xhr # notified evs"
      by (simp add: notified_def)
    have ih: "messages (deliver opts aid evs (onDownloadProgress opts aid (Some xhr) st)) =
        (if notified evs = [] then messages (onDownloadProgress opts aid (Some xhr) st)
         else map (overwrite aid (last (notified evs)))
                (messages (onDownloadProgress opts aid (Some xhr) st)))"
      using 2 [of ] Some by simp
    show ?thesis unfolding Some
      by (simp add: ih n progress_messages comp_def)
  qed
next
  case (3 opts aid evs st)
  show ?case by (simp add: 3 notified_def)
qed

lemma last_map_overwrite:
  "msgs \<noteq> [] \<Longrightarrow> last (map (overwrite aid s) msgs) = overwrite aid s (last msgs)"
  by (simp add: last_map)

lemma append_start_messages:
  "messages (append_start nanoid now message st) =
     messages st @ [userMessage_of nanoid now message, assistantMessage_of nanoid now message]"
  by (simp add: append_start_def)

lemma append_start_fields:
  "error (append_start nanoid now message st) = None"
  "isLoading (append_start nanoid now message st) = True"
  "effects (append_start nanoid now message st) = effects st"
  "abortControllerRef (append_start nanoid now message st) = Some (length (controllers st))"
  by (simp_all add: append_start_def)

lemma assistantMessage_id:
  "msg_id (assistantMessage_of nanoid now message) = assistantMessageId_of nanoid message"
  by (simp add: assistantMessage_of_def)

lemma append_Inr:
  "requestBody opts (messages st) (userMessage_of nanoid now message) = Inr p \<Longrightarrow>
   append_msg opts nanoid now message flight result st =
     append_finally
       (case result of
          Resolved \<Rightarrow> append_success opts (assistantMessage_of nanoid now message)
                        (in_flight opts nanoid now message p flight st)
        | Rejected err \<Rightarrow> append_catch opts err (in_flight opts nanoid now message p flight st))"
  by (simp add: append_msg_def in_flight_def Let_def assistantMessage_id split: outcome.split)

lemma append_Inl:
  "requestBody opts (messages st) (userMessage_of nanoid now message) = Inl err \<Longrightarrow>
   append_msg opts nanoid now message flight result st =
     append_finally (append_catch opts err (append_start nanoid now message st))"
  by (simp add: append_msg_def Let_def)

lemma deliver_start_last:
  "last (messages (deliver opts (assistantMessageId_of nanoid message) flight
          (append_start nanoid now message st))) =
     (assistantMessage_of nanoid now message)\<lparr>parts := [text_part (last_payload flight)]\<rparr>"
  by (simp add: deliver_messages append_start_messages last_payload_def overwrite_def
      assistantMessage_of_def)

lemma in_flight_messages:
  "messages (in_flight opts nanoid now message p flight st) =
     messages (deliver opts (assistantMessageId_of nanoid message) flight
                (append_start nanoid now message st))"
  by (simp add: in_flight_def deliver_messages)

lemma in_flight_messages_last:
  "last (messages (in_flight opts nanoid now message p flight st)) =
     (assistantMessage_of nanoid now message)\<lparr>parts := [text_part (last_payload flight)]\<rparr>"
  by (simp only: in_flight_messages deliver_start_last)

text \<open>
  When building the payload throws, no request is made: the error is handled by the
  \<open>catch\<close> block with the two messages as \<open>append\<close> put them.
\<close>

lemma append_payload_failure:
  assumes "requestBody opts (messages st) (userMessage_of nanoid now message) = Inl err"
    and "\<not> axios_isCancel err"
  shows "error (append_msg opts nanoid now message flight result st) = Some err"
    and "isLoading (append_msg opts nanoid now message flight result st) = False"
    and "effects (append_msg opts nanoid now message flight result st) =
           effects st @ [ConsoleError err] @ (if onError opts then [OnError err] else [])"
    and "messages (append_msg opts nanoid now message flight result st) =
           messages (append_start nanoid now message st)"
  using assms by (simp_all add: append_Inl append_catch_def append_start_def append_finally_def)

lemma in_flight_error: "error (in_flight opts nanoid now message p flight st) = None"
  by (simp add: in_flight_def deliver_error append_start_def)

lemma in_flight_effects:
  "effects (in_flight opts nanoid now message p flight st) =
     effects st @ [AxiosPost (api opts) p] @ responses opts flight"
  by (simp add: in_flight_def deliver_effects append_start_def)

lemma in_flight_ids:
  "map msg_id (messages (in_flight opts nanoid now message p flight st)) =
     map msg_id (messages st) @
       [msg_id (userMessage_of nanoid now message), assistantMessageId_of nanoid message]"
  by (simp add: in_flight_def deliver_ids append_start_def assistantMessage_of_def)

lemma finally_fields [simp]:
  "messages (append_finally st) = messages st"
  "error (append_finally st) = error st"
  "effects (append_finally st) = effects st"
  "input (append_finally st) = input st"
  "isLoading (append_finally st) = False"
  "abortControllerRef (append_finally st) = None"
  by (simp_all add: append_finally_def)

lemma catch_fields [simp]:
  "messages (append_catch opts err st) = messages st"
  "input (append_catch opts err st) = input st"
  by (simp_all add: append_catch_def)

lemma success_fields [simp]:
  "messages (append_success opts m st) = messages st"
  "error (append_success opts m st) = error st"
  "input (append_success opts m st) = input st"
  by (simp_all add: append_success_def)

lemma map_overwrite_fresh:
  "aid \<notin> msg_id ` set msgs \<Longrightarrow> map (overwrite aid s) msgs = msgs"
  by (induction msgs) (auto simp add: overwrite_def)


lemma append_resolved_effects:
  "requestBody opts (messages st) (userMessage_of nanoid now message) = Inr p \<Longrightarrow>
   effects (append_msg opts nanoid now message flight Resolved st) =
     effects st @ [AxiosPost (api opts) p] @ responses opts flight @
       (if onFinish opts then [OnFinish (assistantMessage_of nanoid now message)] else [])"
  by (simp add: append_Inr append_success_def in_flight_effects)

lemma requestBody_demo:
  "requestBody opts_demo (messages (useChat_init [])) (userMessage_of nanoid_demo now_demo (Str ''hi'')) =
     Inr (DefaultPayload
           [\<lparr>msg_id = ''id-user'', role = User, parts = [text_part ''hi''], createdAt = Some 1000\<rparr>]
           (Some ''hi'') [])"
  by (simp add: requestBody_def opts_demo_def userMessage_of_def nanoid_demo_def now_demo_def
      useChat_init_def text_part_def)

lemma notified_append: "notified (xs @ ys) = notified xs @ notified ys"
  by (simp add: notified_def)

lemma last_payload_late:
  "last_payload (flight @ [Stop, Progress (Some xhr)]) = raw_response xhr"
  by (simp add: last_payload_def notified_append) (simp add: notified_def)



text \<open>
  The handle stays in range: it is so at the first render, \<open>append\<close> stores the controller
  it creates, and the events of a request and the end of \<open>append\<close> keep it so.
\<close>

lemma handle_in_range_init: "handle_in_range (useChat_init msgs)"
  by (simp add: handle_in_range_def useChat_init_def)

lemma handle_in_range_start: "handle_in_range (append_start nanoid now message st)"
  by (simp add: handle_in_range_def append_start_def)

lemma handle_in_range_stop: "handle_in_range (stop st)"
  by (simp add: handle_in_range_def stop_def split: option.split)

lemma handle_in_range_progress:
  "handle_in_range st \<Longrightarrow> handle_in_range (onDownloadProgress opts aid ev st)"
  by (simp add: handle_in_range_def onDownloadProgress_def split: option.splits)

lemma handle_in_range_deliver:
  "handle_in_range st \<Longrightarrow> handle_in_range (deliver opts aid flight st)"
  by (induction opts aid flight st rule: deliver.induct)
    (simp_all add: handle_in_range_progress handle_in_range_stop)

lemma handle_in_range_append: "handle_in_range (append_msg opts nanoid now message flight result st)"
  by (simp add: handle_in_range_def append_msg_def Let_def append_finally_def
      split: sum.split outcome.split)

subsection \<open>Sending\<close>




text \<open>
  Claim C4. In the hook, every notification overwrites the text of the placeholder with
  its raw payload. After any sequence of events of a request the last message is the
  placeholder as it was created, but for its parts: one part of type \<open>text\<close> whose text is
  the last payload (the empty string when none came). One notification gives every
  message with the placeholder's id that one part with its payload and leaves the
  others, and delivered twice it leaves the messages as the first delivery left them.
\<close>

theorem progress_last_write_wins:
  "last (messages (deliver opts (assistantMessageId_of nanoid message) flight
          (append_start nanoid now message st))) =
     (assistantMessage_of nanoid now message)
       \<lparr>parts := [\<lparr>part_type = Text, part_text = Some (last_payload flight), image_url = None, file_url = None\<rparr>]\<rparr> \<and>
   messages (onDownloadProgress opts aid (Some xhr) st') =
     map (\<lambda>msg. if msg_id msg = aid
                then msg\<lparr>parts := [\<lparr>part_type = Text, part_text = Some (raw_response xhr), image_url = None, file_url = None\<rparr>]\<rparr>
                else msg)
       (messages st') \<and>
   messages (onDownloadProgress opts aid (Some xhr) (onDownloadProgress opts aid (Some xhr) st')) =
     messages (onDownloadProgress opts aid (Some xhr) st')"
proof -
  have one: "messages (onDownloadProgress opts aid (Some xhr) st') =
      map (\<lambda>msg. if msg_id msg = aid
                 then msg\<lparr>parts := [\<lparr>part_type = Text, part_text = Some (raw_response xhr), image_url = None, file_url = None\<rparr>]\<rparr>
                 else msg)
        (messages st')"
    by (simp add: onDownloadProgress_def text_part_def)
  have fin: "last (messages (deliver opts (assistantMessageId_of nanoid message) flight
      (append_start nanoid now message st))) =
      (assistantMessage_of nanoid now message)
        \<lparr>parts := [\<lparr>part_type = Text, part_text = Some (last_payload flight), image_url = None, file_url = None\<rparr>]\<rparr>"
    by (simp add: deliver_start_last text_part_def)
  have twice: "messages (onDownloadProgress opts aid (Some xhr)
      (onDownloadProgress opts aid (Some xhr) st')) =
      messages (onDownloadProgress opts aid (Some xhr) st')"
    by (simp add: progress_messages comp_def)
  show ?thesis
    using one fin twice by blast
qed

text \<open>An instance of C4: the payloads \<open>He\<close>, \<open>Hello\<close>, \<open>Hello!\<close> leave the text \<open>Hello!\<close>.\<close>

theorem progress_last_write_wins_witness:
  "last (messages (deliver opts_demo (assistantMessageId_of nanoid_demo (Str ''hi''))
          [Progress (Some (xhr_text ''He'')), Progress (Some (xhr_text ''Hello'')),
           Progress (Some (xhr_text ''Hello!''))]
          (append_start nanoid_demo now_demo (Str ''hi'') (useChat_init [])))) =
     \<lparr>msg_id = ''id-assistant'', role = Assistant,
      parts = [\<lparr>part_type = Text, part_text = Some ''Hello!'', image_url = None, file_url = None\<rparr>], createdAt = Some 1001\<rparr>"
proof -
  have lp: "last_payload [Progress (Some (xhr_text ''He'')), Progress (Some (xhr_text ''Hello'')),
      Progress (Some (xhr_text ''Hello!''))] = ''Hello!''"
    by (simp add: last_payload_def notified_def raw_response_def xhr_text_def)
  have a: "(assistantMessage_of nanoid_demo now_demo (Str ''hi''))
      \<lparr>parts := [\<lparr>part_type = Text, part_text = Some ''Hello!'', image_url = None, file_url = None\<rparr>]\<rparr> =
      \<lparr>msg_id = ''id-assistant'', role = Assistant,
       parts = [\<lparr>part_type = Text, part_text = Some ''Hello!'', image_url = None, file_url = None\<rparr>], createdAt = Some 1001\<rparr>"
    by (simp add: assistantMessage_of_def assistantMessageId_of_def nanoid_demo_def now_demo_def)
  show ?thesis
    using progress_last_write_wins [of opts_demo nanoid_demo "Str ''hi''"
        "[Progress (Some (xhr_text ''He'')), Progress (Some (xhr_text ''Hello'')),
          Progress (Some (xhr_text ''Hello!''))]" now_demo "useChat_init []"]
    unfolding lp a by blast
qed

text \<open>
  Claim C1 at a concrete send: \<open>append("hi")\<close>, one notification with the payload \<open>Hello\<close>,
  then success. \<open>onFinish\<close> is called once, with the placeholder as it was created: its
  text part holds the empty string, while the placeholder in \<open>messages\<close> holds \<open>Hello\<close>.
\<close>

theorem onFinish_receives_empty_placeholder:
  "effects (append_msg opts_demo nanoid_demo now_demo (Str ''hi'')
      [Progress (Some (xhr_text ''Hello''))] Resolved (useChat_init [])) =
     [AxiosPost ''/api/chat''
        (DefaultPayload
           [\<lparr>msg_id = ''id-user'', role = User, parts = [text_part ''hi''], createdAt = Some 1000\<rparr>]
           (Some ''hi'') []),
      OnResponse ''Hello'',
      OnFinish \<lparr>msg_id = ''id-assistant'', role = Assistant, parts = [text_part []],
                createdAt = Some 1001\<rparr>] \<and>
   messages (append_msg opts_demo nanoid_demo now_demo (Str ''hi'')
      [Progress (Some (xhr_text ''Hello''))] Resolved (useChat_init [])) =
     [\<lparr>msg_id = ''id-user'', role = User, parts = [text_part ''hi''], createdAt = Some 1000\<rparr>,
      \<lparr>msg_id = ''id-assistant'', role = Assistant, parts = [text_part ''Hello''],
       createdAt = Some 1001\<rparr>]"
  by (simp add: append_msg_def Let_def requestBody_def opts_demo_def userMessage_of_def
      assistantMessage_of_def assistantMessageId_of_def nanoid_demo_def now_demo_def
      useChat_init_def append_start_def onDownloadProgress_def raw_response_def xhr_text_def
      append_success_def append_finally_def text_part_def)

text \<open>
  Claim C7. When the request of \<open>append\<close> is rejected with an error that is not a
  cancellation, \<open>error\<close> holds that error, \<open>isLoading\<close> is false, the error is written to
  the console and passed to \<open>onError\<close> once, after the calls the notifications made, and
  the messages are those the last notification left: the placeholder is there as it was
  created, but for its parts, one text part holding the last payload that arrived.
\<close>

theorem append_failure_recorded:
  assumes "requestBody opts (messages st) (userMessage_of nanoid now message) = Inr p"
    and "\<not> axios_isCancel err"
  shows "error (append_msg opts nanoid now message flight (Rejected err) st) = Some err \<and>
         isLoading (append_msg opts nanoid now message flight (Rejected err) st) = False \<and>
         effects (append_msg opts nanoid now message flight (Rejected err) st) =
           effects st @ [AxiosPost (api opts) p] @ responses opts flight @
             [ConsoleError err] @ (if onError opts then [OnError err] else []) \<and>
         messages (append_msg opts nanoid now message flight (Rejected err) st) =
           messages (deliver opts (assistantMessageId_of nanoid message) flight
                      (append_start nanoid now message st)) \<and>
         last (messages (append_msg opts nanoid now message flight (Rejected err) st)) =
           (assistantMessage_of nanoid now message)\<lparr>parts := [text_part (last_payload flight)]\<rparr>"
proof -
  let ?fin = "append_msg opts nanoid now message flight (Rejected err) st"
  let ?mid = "in_flight opts nanoid now message p flight st"
  have fin: "?fin = append_finally (append_catch opts err ?mid)"
    using assms(1) by (simp add: append_Inr)
  have e: "error ?fin = Some err"
    using assms(2) by (simp add: fin append_catch_def)
  have l: "isLoading ?fin = False"
    by (simp add: fin)
  have f: "effects ?fin = effects st @ [AxiosPost (api opts) p] @ responses opts flight @
      [ConsoleError err] @ (if onError opts then [OnError err] else [])"
    using assms(2) by (simp add: fin append_catch_def in_flight_effects)
  have m: "messages ?fin = messages (deliver opts (assistantMessageId_of nanoid message) flight
      (append_start nanoid now message st))"
    by (simp add: fin in_flight_messages)
  have t: "last (messages ?fin) =
      (assistantMessage_of nanoid now message)\<lparr>parts := [text_part (last_payload flight)]\<rparr>"
    by (simp add: fin in_flight_messages_last)
  show ?thesis
    using e l f m t by blast
qed

text \<open>An instance of C7: the payload \<open>Hel\<close> arrives, then the network fails.\<close>

theorem append_failure_recorded_witness:
  "error (append_msg opts_demo nanoid_demo now_demo (Str ''hi'') [Progress (Some (xhr_text ''Hel''))]
            (Rejected (Error ''Network Error'')) (useChat_init [])) = Some (Error ''Network Error'') \<and>
   isLoading (append_msg opts_demo nanoid_demo now_demo (Str ''hi'') [Progress (Some (xhr_text ''Hel''))]
            (Rejected (Error ''Network Error'')) (useChat_init [])) = False \<and>
   last (messages (append_msg opts_demo nanoid_demo now_demo (Str ''hi'')
            [Progress (Some (xhr_text ''Hel''))]
            (Rejected (Error ''Network Error'')) (useChat_init []))) =
     \<lparr>msg_id = ''id-assistant'', role = Assistant, parts = [text_part ''Hel''],
      createdAt = Some 1001\<rparr>"
proof -
  have c: "\<not> axios_isCancel (Error ''Network Error'')"
    by (simp add: axios_isCancel_def)
  have lp: "last_payload [Progress (Some (xhr_text ''Hel''))] = ''Hel''"
    by (simp add: last_payload_def notified_def raw_response_def xhr_text_def)
  have a: "(assistantMessage_of nanoid_demo now_demo (Str ''hi''))\<lparr>parts := [text_part ''Hel'']\<rparr> =
      \<lparr>msg_id = ''id-assistant'', role = Assistant, parts = [text_part ''Hel''],
       createdAt = Some 1001\<rparr>"
    by (simp add: assistantMessage_of_def assistantMessageId_of_def nanoid_demo_def now_demo_def)
  show ?thesis
    using append_failure_recorded [OF requestBody_demo c, of "[Progress (Some (xhr_text ''Hel''))]"]
    unfolding lp a by blast
qed

text \<open>
  Claim C8. When the request of \<open>append\<close> is rejected with a cancellation, \<open>error\<close> stays
  empty, \<open>isLoading\<close> is false, and the effects of the call are the request, the calls of
  \<open>onResponse\<close> and one line on the console: \<open>onError\<close> is not called.
\<close>

theorem append_cancel_quiet:
  assumes "requestBody opts (messages st) (userMessage_of nanoid now message) = Inr p"
    and "axios_isCancel err"
  shows "error (append_msg opts nanoid now message flight (Rejected err) st) = None \<and>
         isLoading (append_msg opts nanoid now message flight (Rejected err) st) = False \<and>
         effects (append_msg opts nanoid now message flight (Rejected err) st) =
           effects st @ [AxiosPost (api opts) p] @ responses opts flight @
             [ConsoleLog ''Request canceled'']"
  using assms
  by (simp add: append_Inr in_flight_effects) (simp add: append_catch_def in_flight_error in_flight_effects)

text \<open>An instance of C8: the payload \<open>Hel\<close> arrives, the user stops, the request is cancelled.\<close>

theorem append_cancel_quiet_witness:
  "error (append_msg opts_demo nanoid_demo now_demo (Str ''hi'')
            [Progress (Some (xhr_text ''Hel'')), Stop]
            (Rejected CanceledError) (useChat_init [])) = None \<and>
   isLoading (append_msg opts_demo nanoid_demo now_demo (Str ''hi'')
            [Progress (Some (xhr_text ''Hel'')), Stop]
            (Rejected CanceledError) (useChat_init [])) = False \<and>
   effects (append_msg opts_demo nanoid_demo now_demo (Str ''hi'')
            [Progress (Some (xhr_text ''Hel'')), Stop]
            (Rejected CanceledError) (useChat_init [])) =
     [AxiosPost ''/api/chat''
        (DefaultPayload
           [\<lparr>msg_id = ''id-user'', role = User, parts = [text_part ''hi''], createdAt = Some 1000\<rparr>]
           (Some ''hi'') []),
      OnResponse ''Hel'', ConsoleLog ''Request canceled'']"
proof -
  have c: "axios_isCancel CanceledError"
    by (simp add: axios_isCancel_def)
  show ?thesis
    using append_cancel_quiet [OF requestBody_demo c, of "[Progress (Some (xhr_text ''Hel'')), Stop]"]
    by (simp add: responses_def notified_def raw_response_def xhr_text_def opts_demo_def
        useChat_init_def)
qed

subsection \<open>Stopping and submitting\<close>

text \<open>
  C2 as the specification states it fails: after \<open>stop\<close> the reference is empty and the
  placeholder's text is empty, and a notification with the payload \<open>late\<close> delivered then
  sets the text to \<open>late\<close>.
\<close>

theorem late_progress_applied:
  "abortControllerRef (stop (append_start nanoid_demo now_demo (Str ''hi'') (useChat_init []))) = None \<and>
   parts (last (messages (stop (append_start nanoid_demo now_demo (Str ''hi'') (useChat_init []))))) =
     [\<lparr>part_type = Text, part_text = Some [], image_url = None, file_url = None\<rparr>] \<and>
   parts (last (messages (onDownloadProgress opts_demo ''id-assistant'' (Some (xhr_text ''late''))
     (stop (append_start nanoid_demo now_demo (Str ''hi'') (useChat_init [])))))) =
     [\<lparr>part_type = Text, part_text = Some ''late'', image_url = None, file_url = None\<rparr>]"
  by (simp add: stop_def append_start_def useChat_init_def onDownloadProgress_def
      assistantMessage_of_def assistantMessageId_of_def userMessage_of_def nanoid_demo_def
      raw_response_def xhr_text_def text_part_def)

text \<open>
  Claim C2, as the code has it. On a request in flight, whose handle refers to a
  controller, \<open>stop\<close> aborts that controller and no other, empties the reference and sets
  \<open>isLoading\<close> to false; \<open>error\<close>, \<open>input\<close> and \<open>messages\<close> are as before. The progress
  callback does not read the reference. A notification with a target delivered after
  \<open>stop\<close> gives every message with the placeholder's id one part of type \<open>text\<close> whose
  text is its raw payload and leaves the others; one without a target changes nothing.
  So in a send, after any events, a \<open>stop\<close> and a late notification, the last message is
  the placeholder holding the late payload.
\<close>

theorem stop_then_progress:
  assumes "abortControllerRef st = Some c" and "c < length (controllers st)"
  shows "isLoading (stop st) = False \<and>
         abortControllerRef (stop st) = None \<and>
         controllers (stop st) ! c = True \<and>
         controllers (stop st) = (controllers st)[c := True] \<and>
         error (stop st) = error st \<and>
         input (stop st) = input st \<and>
         messages (stop st) = messages st \<and>
         messages (onDownloadProgress opts aid (Some xhr) (stop st)) =
           map (\<lambda>msg. if msg_id msg = aid
                      then msg\<lparr>parts := [\<lparr>part_type = Text, part_text = Some (raw_response xhr), image_url = None, file_url = None\<rparr>]\<rparr>
                      else msg)
             (messages st) \<and>
         messages (onDownloadProgress opts aid None (stop st)) = messages st \<and>
         last (messages (deliver opts (assistantMessageId_of nanoid message)
                 (flight @ [Stop, Progress (Some xhr)]) (append_start nanoid now message st0))) =
           (assistantMessage_of nanoid now message)
             \<lparr>parts := [\<lparr>part_type = Text, part_text = Some (raw_response xhr), image_url = None, file_url = None\<rparr>]\<rparr>"
proof -
  have s: "stop st = st\<lparr>controllers := (controllers st)[c := True],
      abortControllerRef := None, isLoading := False\<rparr>"
    using assms(1) by (simp add: stop_def)
  have ctl: "controllers (stop st) ! c = True"
    using assms(2) by (simp add: s)
  have late: "messages (onDownloadProgress opts aid (Some xhr) (stop st)) =
      map (\<lambda>msg. if msg_id msg = aid
                 then msg\<lparr>parts := [\<lparr>part_type = Text, part_text = Some (raw_response xhr), image_url = None, file_url = None\<rparr>]\<rparr>
                 else msg)
        (messages st)"
    by (simp add: onDownloadProgress_def text_part_def)
  have none: "messages (onDownloadProgress opts aid None (stop st)) = messages st"
    by (simp add: onDownloadProgress_def)
  have send: "last (messages (deliver opts (assistantMessageId_of nanoid message)
      (flight @ [Stop, Progress (Some xhr)]) (append_start nanoid now message st0))) =
      (assistantMessage_of nanoid now message)
        \<lparr>parts := [\<lparr>part_type = Text, part_text = Some (raw_response xhr), image_url = None, file_url = None\<rparr>]\<rparr>"
    by (simp add: deliver_start_last last_payload_late text_part_def)
  have rest: "isLoading (stop st) = False \<and> abortControllerRef (stop st) = None \<and>
      controllers (stop st) = (controllers st)[c := True]"
    by (simp add: s)
  show ?thesis
    using rest ctl late none send by simp
qed

text \<open>
  An instance: \<open>append("hi")\<close>, the payload \<open>Hel\<close>, \<open>stop\<close>, then the payload \<open>late\<close>. The
  controller of the request is aborted, and the placeholder holds \<open>late\<close>.
\<close>

theorem stop_then_progress_witness:
  "abortControllerRef (append_start nanoid_demo now_demo (Str ''hi'') (useChat_init [])) = Some 0 \<and>
   isLoading (stop (append_start nanoid_demo now_demo (Str ''hi'') (useChat_init []))) = False \<and>
   abortControllerRef (stop (append_start nanoid_demo now_demo (Str ''hi'') (useChat_init []))) = None \<and>
   error (stop (append_start nanoid_demo now_demo (Str ''hi'') (useChat_init []))) = None \<and>
   controllers (stop (append_start nanoid_demo now_demo (Str ''hi'') (useChat_init []))) = [True] \<and>
   messages (onDownloadProgress opts_demo ''id-assistant'' (Some (xhr_text ''late''))
      (stop (append_start nanoid_demo now_demo (Str ''hi'') (useChat_init [])))) =
     [\<lparr>msg_id = ''id-user'', role = User, parts = [\<lparr>part_type = Text, part_text = Some ''hi'', image_url = None, file_url = None\<rparr>], createdAt = Some 1000\<rparr>,
      \<lparr>msg_id = ''id-assistant'', role = Assistant, parts = [\<lparr>part_type = Text, part_text = Some ''late'', image_url = None, file_url = None\<rparr>],
       createdAt = Some 1001\<rparr>] \<and>
   last (messages (deliver opts_demo (assistantMessageId_of nanoid_demo (Str ''hi''))
      ([Progress (Some (xhr_text ''Hel''))] @ [Stop, Progress (Some (xhr_text ''late''))])
      (append_start nanoid_demo now_demo (Str ''hi'') (useChat_init [])))) =
     \<lparr>msg_id = ''id-assistant'', role = Assistant, parts = [\<lparr>part_type = Text, part_text = Some ''late'', image_url = None, file_url = None\<rparr>],
      createdAt = Some 1001\<rparr>"
proof -
  let ?st = "append_start nanoid_demo now_demo (Str ''hi'') (useChat_init [])"
  have h1: "abortControllerRef ?st = Some 0"
    by (simp add: append_start_def useChat_init_def)
  have h2: "0 < length (controllers ?st)"
    by (simp add: append_start_def useChat_init_def)
  have c: "controllers ?st = [False]" and e: "error ?st = None"
    by (simp_all add: append_start_def useChat_init_def)
  have m: "messages ?st =
      [\<lparr>msg_id = ''id-user'', role = User, parts = [\<lparr>part_type = Text, part_text = Some ''hi'', image_url = None, file_url = None\<rparr>], createdAt = Some 1000\<rparr>,
       \<lparr>msg_id = ''id-assistant'', role = Assistant, parts = [\<lparr>part_type = Text, part_text = Some [], image_url = None, file_url = None\<rparr>],
        createdAt = Some 1001\<rparr>]"
    by (simp add: append_start_def useChat_init_def userMessage_of_def assistantMessage_of_def
        assistantMessageId_of_def nanoid_demo_def now_demo_def text_part_def)
  have a: "assistantMessage_of nanoid_demo now_demo (Str ''hi'') =
      \<lparr>msg_id = ''id-assistant'', role = Assistant, parts = [\<lparr>part_type = Text, part_text = Some [], image_url = None, file_url = None\<rparr>],
       createdAt = Some 1001\<rparr>"
    by (simp add: assistantMessage_of_def assistantMessageId_of_def nanoid_demo_def now_demo_def
        text_part_def)
  have r: "raw_response (xhr_text ''late'') = ''late''"
    by (simp add: raw_response_def xhr_text_def)
  note t = stop_then_progress [OF h1 h2, of opts_demo "''id-assistant''" "xhr_text ''late''"
      nanoid_demo "Str ''hi''" "[Progress (Some (xhr_text ''Hel''))]" now_demo "useChat_init []"]
  show ?thesis
    using h1 t unfolding c e m a r by simp
qed

text \<open>
  Claim C10. With no request in flight, that is with the reference to the cancellation
  handle empty, \<open>stop\<close> changes nothing: the whole state, with \<open>messages\<close>, \<open>input\<close>,
  \<open>isLoading\<close> and \<open>error\<close>, is returned as it was.
\<close>

theorem stop_without_handle: "abortControllerRef st = None \<Longrightarrow> stop st = st"
  by (simp add: stop_def)

text \<open>An instance of C10: \<open>stop\<close> on the state of the first render.\<close>

theorem stop_without_handle_witness:
  "abortControllerRef (useChat_init []) = None \<and> stop (useChat_init []) = useChat_init []"
  using stop_without_handle [of "useChat_init []"] by (simp add: useChat_init_def)

text \<open>
  Claim C9. When the content that \<open>handleSubmit\<close> reads (its string argument, else the
  input) is empty or consists of white space only, nothing is appended and no request is
  made: the state is returned with \<open>messages\<close>, \<open>input\<close>, \<open>isLoading\<close> and \<open>error\<close> as they
  were, and the only effect is the \<open>preventDefault\<close> of a form event.
\<close>

theorem handleSubmit_blank:
  assumes "list_all isWhiteSpace (content_of e st)"
  shows "handleSubmit opts nanoid now e flight result st =
           st\<lparr>effects := effects st @ (if e = FormEvent then [PreventDefault] else [])\<rparr>"
  using assms
  by (cases e) (simp_all add: handleSubmit_def trim_empty_iff Let_def list_all_iff)

text \<open>An instance of C9: a space, a tab and a line feed submitted as a string.\<close>

theorem handleSubmit_blank_witness:
  "list_all isWhiteSpace (content_of (Content [CHR 0x20, CHR 0x09, CHR 0x0A]) (useChat_init [])) \<and>
   handleSubmit opts_demo nanoid_demo now_demo (Content [CHR 0x20, CHR 0x09, CHR 0x0A])
     [] Resolved (useChat_init []) = useChat_init []"
  using handleSubmit_blank [of "Content [CHR 0x20, CHR 0x09, CHR 0x0A]" "useChat_init []"
      opts_demo nanoid_demo now_demo "[]" Resolved]
  by (simp add: content_of_def isWhiteSpace_def)

section \<open>Properties of the component\<close>

subsection \<open>The update of the \<open>item\<close> branch\<close>

lemma Chat_setText_map:
  "\<forall>m \<in> set msgs. chat_parts m \<noteq> [] \<Longrightarrow>
   Chat_setText aid c msgs = Inr (map (Chat_appended aid c) msgs)"
proof (induction msgs)
  case Nil
  show ?case by simp
next
  case (Cons m msgs)
  have rest: "\<forall>m \<in> set msgs. chat_parts m \<noteq> []"
    using Cons.prems by simp
  have "chat_parts m \<noteq> []"
    using Cons.prems by simp
  then obtain p ps where p: "chat_parts m = p # ps"
    by (cases "chat_parts m") auto
  show ?case
    by (simp add: Cons.IH [OF rest] p Chat_appended_def)
qed

lemma Chat_appended_parts: "chat_parts m \<noteq> [] \<Longrightarrow> chat_parts (Chat_appended aid c m) \<noteq> []"
  by (simp add: Chat_appended_def)



lemma last_contents_Nil [simp]: "last_contents JSON_parse [] = []"
  by (simp add: last_contents_def)




lemma error_tick:
  assumes "last_record JSON_parse xhr = Some r" and "rtype r = T_error"
  shows "Chat_onDownloadProgress JSON_parse JSON_stringify aid (Some xhr) msgs =
           Inl (Error (JSON_stringify r))"
  using assms
  by (auto simp add: Chat_onDownloadProgress_def last_record_def Let_def
      split: sum.splits option.splits)

lemma callback_keeps_parts:
  assumes "Chat_onDownloadProgress JSON_parse JSON_stringify aid ev msgs = Inr msgs'"
    and "\<forall>m \<in> set msgs. chat_parts m \<noteq> []"
  shows "\<forall>m \<in> set msgs'. chat_parts m \<noteq> []"
proof (cases "msgs' = msgs")
  case True
  then show ?thesis using assms(2) by simp
next
  case False
  then obtain c where "Chat_setText aid c msgs = Inr msgs'"
    using assms(1)
    by (auto simp add: Chat_onDownloadProgress_def Let_def
        split: option.splits sum.splits if_splits)
  then have "msgs' = map (Chat_appended aid c) msgs"
    using Chat_setText_map [OF assms(2), of aid c] by simp
  then show ?thesis
    using assms(2) by (simp add: Chat_appended_parts)
qed

lemma Chat_deliver_keeps_parts:
  "\<forall>m \<in> set msgs. chat_parts m \<noteq> [] \<Longrightarrow>
   \<forall>m \<in> set (snd (Chat_deliver JSON_parse JSON_stringify aid ticks msgs)). chat_parts m \<noteq> []"
proof (induction ticks arbitrary: msgs)
  case Nil
  then show ?case by simp
next
  case (Cons ev ticks)
  show ?case
  proof (cases "Chat_onDownloadProgress JSON_parse JSON_stringify aid ev msgs")
    case (Inl err)
    then show ?thesis
      using Cons.IH [OF Cons.prems] by (simp split: prod.splits)
  next
    case (Inr msgs1)
    then show ?thesis
      using Cons.IH [OF callback_keeps_parts [OF Inr Cons.prems]] by simp
  qed
qed

text \<open>
  Every message of the component has a part: the list starts empty, and \<open>handleSubmit\<close>
  keeps the property.
\<close>

lemma Chat_handleSubmit_keeps_parts:
  assumes "list_all (\<lambda>m. chat_parts m \<noteq> []) msgs"
  shows "list_all (\<lambda>m. chat_parts m \<noteq> [])
           (final_messages (Chat_handleSubmit JSON_parse JSON_stringify nanoid txt ticks result msgs))"
proof -
  have "\<forall>m \<in> set (Chat_start nanoid txt msgs). chat_parts m \<noteq> []"
    using assms by (auto simp: Chat_start_def list_all_iff)
  from Chat_deliver_keeps_parts [OF this, of JSON_parse JSON_stringify "nanoid 1" ticks]
  show ?thesis
    by (simp add: Chat_handleSubmit_def list_all_iff split: prod.splits)
qed

subsection \<open>The lines of the examples\<close>




lemma lines_boom: "lines_of (response (xhr_buffer [line_boom])) = [line_boom]"
  by (simp add: xhr_buffer_def xhr_text_def lines_of_def line_boom_def)

lemma lines_hi_boom: "lines_of (response (xhr_buffer [line_hi, line_boom])) = [line_hi, line_boom]"
  by (simp add: xhr_buffer_def xhr_text_def lines_of_def line_hi_def line_boom_def)

lemma lines_garbage_boom:
  "lines_of (response (xhr_buffer [''not json'', line_boom])) = [''not json'', line_boom]"
  by (simp add: xhr_buffer_def xhr_text_def lines_of_def line_boom_def)

lemma parse_hi:
  "JSON_parse_demo line_hi = Some \<lparr>rtype = T_item, content = ''Hi'', metadata = meta_demo\<rparr>"
  by (simp add: JSON_parse_demo_def)

lemma parse_boom:
  "JSON_parse_demo line_boom = Some \<lparr>rtype = T_error, content = ''boom'', metadata = meta_demo\<rparr>"
  by (simp add: JSON_parse_demo_def line_hi_def line_there_def line_boom_def)

lemma parse_garbage: "JSON_parse_demo ''not json'' = None"
  by (simp add: JSON_parse_demo_def line_hi_def line_there_def line_boom_def)

lemma stringify_boom:
  "JSON_stringify_demo \<lparr>rtype = T_error, content = ''boom'', metadata = meta_demo\<rparr> = line_boom"
  by (simp add: JSON_stringify_demo_def)

subsection \<open>Notifications\<close>



text \<open>
  C3 as the specification states it fails twice. The component has no error state: its
  state is the list of messages, and after a request whose only notification ends in an
  \<open>error\<close> record, and which is rejected with that error, the list is what the start of
  \<open>handleSubmit\<close> made it; the rejection is written to the console. And when a line
  before the \<open>error\<close> record does not parse, the failure raised is the \<open>SyntaxError\<close> of
  that line, not one carrying the record.
\<close>

theorem error_event_sets_no_state:
  "Chat_handleSubmit JSON_parse_demo JSON_stringify_demo nanoid_demo ''hi''
     [Some (xhr_buffer [line_boom])] (Rejected (Error line_boom)) [] =
     \<lparr>final_messages = Chat_start nanoid_demo ''hi'' [],
      raised = [Error line_boom],
      console = [ConsoleError (Error line_boom)]\<rparr> \<and>
   Chat_onDownloadProgress JSON_parse_demo JSON_stringify_demo ''id-assistant''
     (Some (xhr_buffer [''not json'', line_boom])) (Chat_start nanoid_demo ''hi'' []) =
     Inl (SyntaxError ''not json'')"
proof -
  have r: "last_record JSON_parse_demo (xhr_buffer [line_boom]) =
      Some \<lparr>rtype = T_error, content = ''boom'', metadata = meta_demo\<rparr>"
    by (simp add: last_record_def lines_boom parse_boom at_last_def)
  have cb: "Chat_onDownloadProgress JSON_parse_demo JSON_stringify_demo aid
      (Some (xhr_buffer [line_boom])) ms = Inl (Error line_boom)" for aid ms
    using error_tick [OF r, of JSON_stringify_demo aid ms] by (simp add: stringify_boom)
  have one: "Chat_handleSubmit JSON_parse_demo JSON_stringify_demo nanoid_demo ''hi''
      [Some (xhr_buffer [line_boom])] (Rejected (Error line_boom)) [] =
      \<lparr>final_messages = Chat_start nanoid_demo ''hi'' [],
       raised = [Error line_boom],
       console = [ConsoleError (Error line_boom)]\<rparr>"
    by (simp add: Chat_handleSubmit_def cb)
  have two: "Chat_onDownloadProgress JSON_parse_demo JSON_stringify_demo ''id-assistant''
      (Some (xhr_buffer [''not json'', line_boom])) (Chat_start nanoid_demo ''hi'' []) =
      Inl (SyntaxError ''not json'')"
    by (simp add: Chat_onDownloadProgress_def lines_garbage_boom parse_garbage)
  show ?thesis
    using one two by blast
qed

text \<open>
  Claim C3, as the code has it. In the component, for a notification whose non-empty
  lines all parse and whose last record has the type \<open>error\<close>, the callback raises an
  \<open>Error\<close> carrying the serialized record, and the notification appends no text: the
  messages are as they were. A request with this one notification leaves the two
  messages of \<open>handleSubmit\<close> and, when it is rejected, a line on the console.
\<close>

theorem error_event_raises:
  assumes "last_record JSON_parse xhr = Some r" and "rtype r = T_error"
  shows "Chat_onDownloadProgress JSON_parse JSON_stringify aid (Some xhr) msgs =
           Inl (Error (JSON_stringify r)) \<and>
         Chat_deliver JSON_parse JSON_stringify aid [Some xhr] msgs =
           ([Error (JSON_stringify r)], msgs) \<and>
         Chat_handleSubmit JSON_parse JSON_stringify nanoid txt [Some xhr] result msgs =
           \<lparr>final_messages = Chat_start nanoid txt msgs,
            raised = [Error (JSON_stringify r)],
            console = (case result of Resolved \<Rightarrow> [] | Rejected err \<Rightarrow> [ConsoleError err])\<rparr>"
  by (simp add: error_tick [OF assms] Chat_handleSubmit_def)

text \<open>
  An instance: the placeholder holds \<open>Hi\<close>, and a buffer with the \<open>item\<close> line and the
  \<open>error\<close> line arrives.
\<close>

theorem error_event_raises_witness:
  "Chat_onDownloadProgress JSON_parse_demo JSON_stringify_demo ''id-assistant''
     (Some (xhr_buffer [line_hi, line_boom]))
     [\<lparr>chat_id = ''id-assistant'', chat_role = Chat_Assistant,
       chat_parts = [\<lparr>chat_text = ''Hi''\<rparr>]\<rparr>] = Inl (Error line_boom) \<and>
   Chat_deliver JSON_parse_demo JSON_stringify_demo ''id-assistant''
     [Some (xhr_buffer [line_hi, line_boom])]
     [\<lparr>chat_id = ''id-assistant'', chat_role = Chat_Assistant,
       chat_parts = [\<lparr>chat_text = ''Hi''\<rparr>]\<rparr>] =
     ([Error line_boom],
      [\<lparr>chat_id = ''id-assistant'', chat_role = Chat_Assistant,
        chat_parts = [\<lparr>chat_text = ''Hi''\<rparr>]\<rparr>])"
proof -
  have r: "last_record JSON_parse_demo (xhr_buffer [line_hi, line_boom]) =
      Some \<lparr>rtype = T_error, content = ''boom'', metadata = meta_demo\<rparr>"
    by (simp add: last_record_def lines_hi_boom parse_hi parse_boom at_last_def)
  have ty: "rtype \<lparr>rtype = T_error, content = ''boom'', metadata = meta_demo\<rparr> = T_error"
    by simp
  show ?thesis
    using error_event_raises [OF r ty, of JSON_stringify_demo "''id-assistant''"
        "[\<lparr>chat_id = ''id-assistant'', chat_role = Chat_Assistant,
           chat_parts = [\<lparr>chat_text = ''Hi''\<rparr>]\<rparr>]"]
    by (simp add: stringify_boom)
qed

end
